theory Spec2Isabelle
  imports Main
begin

section \<open>The PLC web controller of \<^verbatim>\<open>backend.py\<close>\<close>

text \<open>
  The development embeds class \<^verbatim>\<open>PLCWebController\<close> and the function
  \<^verbatim>\<open>run_scenario\<close> of \<^verbatim>\<open>src/live_smiulation/backend.py\<close>.
  The Modbus client and the clock are outside the program. Every exchange with the client
  and every \<^verbatim>\<open>time.sleep\<close> is appended to a log kept in the controller state
  (field \<open>wire\<close>), and the client answers an exchange as a function of that log, so that
  any sequence of answers a real device can give is the behaviour of some client of the model.
  Durations are in milliseconds: \<^verbatim>\<open>0.1\<close> seconds is \<open>100\<close>. A negative
  duration, on which \<^verbatim>\<open>time.sleep\<close> raises, is outside the type; the
  source passes \<^verbatim>\<open>0.5\<close>, \<^verbatim>\<open>0.1\<close> and \<^verbatim>\<open>0.05\<close> only.
\<close>

subsection \<open>The outside world\<close>

datatype event =
    WriteCoil nat bool
  | ReadCoils nat nat
  | ReadHoldingRegisters nat nat
  | Sleep nat

text \<open>
  What a call of the client does: it raises, it returns a result whose
  \<^verbatim>\<open>isError()\<close> is true, or it returns a proper result.
\<close>

datatype 'a reply = Raises | ErrorResult | Result 'a

record modbus_client =
  client_write_coil :: "event list \<Rightarrow> nat \<Rightarrow> bool \<Rightarrow> unit reply"
  client_read_coils :: "event list \<Rightarrow> nat \<Rightarrow> nat \<Rightarrow> bool list reply"
  client_read_holding_registers :: "event list \<Rightarrow> nat \<Rightarrow> nat \<Rightarrow> int list reply"

fun failed :: "'a reply \<Rightarrow> bool" where
  "failed Raises = True"
| "failed ErrorResult = True"
| "failed (Result v) = False"

subsection \<open>Data of the controller\<close>

text \<open>
  The dictionary returned by \<^verbatim>\<open>get_system_data\<close>. Dictionaries are association
  lists in insertion order, with \<^verbatim>\<open>d.get(k, default)\<close> as \<open>dict_get\<close>.
\<close>

record snapshot =
  timestamp :: string
  snap_connected :: bool
  coils :: "(string \<times> bool) list"
  registers :: "(string \<times> int) list"
  alerts :: "string list"
  system_fault :: bool

record thresholds_t =
  pt_low :: int
  pt_high :: int
  ft_low :: int
  turb_high :: int
  level_low :: int

record controller =
  host :: string
  port :: nat
  client :: modbus_client
  connected :: bool
  monitoring :: bool
  last_data :: "snapshot option"
  wire :: "event list"

definition dict_get :: "(string \<times> 'v) list \<Rightarrow> string \<Rightarrow> 'v \<Rightarrow> 'v" where
  "dict_get d k dflt = (case map_of d k of None \<Rightarrow> dflt | Some v \<Rightarrow> v)"

text \<open>
  \<^verbatim>\<open>coil_map\<close>, \<^verbatim>\<open>register_map\<close> and \<^verbatim>\<open>thresholds\<close> are
  assigned once in \<^verbatim>\<open>__init__\<close>, to the same literals for every instance,
  and never assigned again: they are constants here.
\<close>

definition coil_map :: "(string \<times> nat) list" where
  "coil_map =
    [(''pump'', 0), (''filter'', 1), (''uv_reactor'', 2), (''start_button'', 3),
     (''emergency_button'', 4), (''low_level_sensor'', 5), (''green_light'', 6),
     (''orange_light'', 7), (''red_light'', 8), (''fault_light'', 9), (''pt_alert'', 10),
     (''ft_alert'', 11), (''turbidity_alert'', 12),
     (''pt_inc_sim'', 16), (''pt_dec_sim'', 17), (''ft_inc_sim'', 18), (''ft_dec_sim'', 19),
     (''turb_inc_sim'', 20), (''turb_dec_sim'', 21), (''level_inc_sim'', 22),
     (''level_dec_sim'', 23)]"

definition register_map :: "(string \<times> nat) list" where
  "register_map =
    [(''pressure_value'', 0), (''flow_value'', 1), (''turbidity_value'', 2),
     (''water_level'', 3)]"

definition thresholds :: thresholds_t where
  "thresholds = \<lparr>pt_low = 20, pt_high = 80, ft_low = 10, turb_high = 15, level_low = 20\<rparr>"

text \<open>\<^verbatim>\<open>__init__\<close>: a fresh controller around a client; nothing has happened yet.\<close>

definition init :: "string \<Rightarrow> nat \<Rightarrow> modbus_client \<Rightarrow> controller" where
  "init h p cl =
    \<lparr>host = h, port = p, client = cl, connected = False, monitoring = False,
     last_data = None, wire = []\<rparr>"

subsection \<open>Single exchanges\<close>

definition sleep :: "nat \<Rightarrow> controller \<Rightarrow> controller" where
  "sleep ms s = s\<lparr>wire := wire s @ [Sleep ms]\<rparr>"

text \<open>
  \<^verbatim>\<open>write_coil\<close>: the two guards return before the client is called; an
  exception of the client is caught and gives \<^verbatim>\<open>False\<close>, as an error result does.
\<close>

definition write_coil :: "string \<Rightarrow> bool \<Rightarrow> controller \<Rightarrow> bool \<times> controller" where
  "write_coil name val s =
    (if \<not> connected s then (False, s)
     else case map_of coil_map name of
       None \<Rightarrow> (False, s)
     | Some address \<Rightarrow>
         (let s' = s\<lparr>wire := wire s @ [WriteCoil address val]\<rparr>
          in case client_write_coil (client s) (wire s) address val of
            Raises \<Rightarrow> (False, s')
          | ErrorResult \<Rightarrow> (False, s')
          | Result r \<Rightarrow> (True, s')))"

text \<open>
  \<^verbatim>\<open>read_coils\<close>: one read of \<open>count\<close> coils from address 0, projected on the
  names whose address is inside the answer.
\<close>

definition read_coils :: "nat \<Rightarrow> controller \<Rightarrow> (string \<times> bool) list \<times> controller" where
  "read_coils count s =
    (if \<not> connected s then ([], s)
     else
       (let s' = s\<lparr>wire := wire s @ [ReadCoils 0 count]\<rparr>
        in case client_read_coils (client s) (wire s) 0 count of
          Raises \<Rightarrow> ([], s')
        | ErrorResult \<Rightarrow> ([], s')
        | Result bits \<Rightarrow>
            ([(name, bits ! address). (name, address) \<leftarrow> coil_map, address < length bits],
             s')))"

definition read_registers :: "controller \<Rightarrow> (string \<times> int) list \<times> controller" where
  "read_registers s =
    (if \<not> connected s then ([], s)
     else
       (let s' = s\<lparr>wire := wire s @ [ReadHoldingRegisters 0 4]\<rparr>
        in case client_read_holding_registers (client s) (wire s) 0 4 of
          Raises \<Rightarrow> ([], s')
        | ErrorResult \<Rightarrow> ([], s')
        | Result regs \<Rightarrow>
            ([(name, regs ! address). (name, address) \<leftarrow> register_map, address < length regs],
             s')))"

subsection \<open>Pulses and parameter adjustment\<close>

text \<open>
  \<^verbatim>\<open>pulse_coil\<close>: the result of the second write is dropped.
\<close>

definition pulse_coil :: "string \<Rightarrow> nat \<Rightarrow> controller \<Rightarrow> bool \<times> controller" where
  "pulse_coil name duration s =
    (case write_coil name True s of
       (True, s1) \<Rightarrow> (True, snd (write_coil name False (sleep duration s1)))
     | (False, s1) \<Rightarrow> (False, s1))"

text \<open>
  The loop \<^verbatim>\<open>for _ in range(n): pulse_coil(coil, dwell); time.sleep(gap)\<close> of
  \<^verbatim>\<open>adjust_parameter\<close> and of the scenarios. The result of each pulse is dropped.
\<close>

fun pulse_loop :: "string \<Rightarrow> nat \<Rightarrow> nat \<Rightarrow> nat \<Rightarrow> controller \<Rightarrow> controller" where
  "pulse_loop coil dwell gap 0 s = s"
| "pulse_loop coil dwell gap (Suc n) s =
     pulse_loop coil dwell gap n (sleep gap (snd (pulse_coil coil dwell s)))"

definition param_map :: "(string \<times> string \<times> string) list" where
  "param_map =
    [(''pressure'', (''pt_inc_sim'', ''pt_dec_sim'')),
     (''flow'', (''ft_inc_sim'', ''ft_dec_sim'')),
     (''turbidity'', (''turb_inc_sim'', ''turb_dec_sim'')),
     (''level'', (''level_inc_sim'', ''level_dec_sim''))]"

text \<open>
  \<^verbatim>\<open>adjust_parameter\<close>: \<^verbatim>\<open>range(steps)\<close> is empty for \<open>steps \<le> 0\<close>.
\<close>

definition adjust_parameter :: "string \<Rightarrow> string \<Rightarrow> int \<Rightarrow> controller \<Rightarrow> bool \<times> controller" where
  "adjust_parameter param direction steps s =
    (case map_of param_map param of
       None \<Rightarrow> (False, s)
     | Some (inc_coil, dec_coil) \<Rightarrow>
         (let coil = (if direction = ''up'' then inc_coil else dec_coil)
          in (True, pulse_loop coil 100 100 (nat steps) s)))"

subsection \<open>Reading the state\<close>

text \<open>
  The alert rules of \<^verbatim>\<open>get_system_data\<close> (the four \<^verbatim>\<open>if\<close> statements
  between the reads and the dictionary), over the thresholds and the register dictionary.
\<close>

definition calc_alerts :: "thresholds_t \<Rightarrow> (string \<times> int) list \<Rightarrow> string list" where
  "calc_alerts th regs =
    (let alerts0 = [];
         alerts1 = (if dict_get regs ''pressure_value'' 50 < pt_low th \<or>
                       dict_get regs ''pressure_value'' 50 > pt_high th
                    then alerts0 @ [''Pressure Alert''] else alerts0);
         alerts2 = (if dict_get regs ''flow_value'' 25 < ft_low th
                    then alerts1 @ [''Flow Alert''] else alerts1);
         alerts3 = (if dict_get regs ''turbidity_value'' 5 > turb_high th
                    then alerts2 @ [''Turbidity Alert''] else alerts2);
         alerts4 = (if dict_get regs ''water_level'' 75 < level_low th
                    then alerts3 @ [''Low Level Alert''] else alerts3)
     in alerts4)"

text \<open>
  \<^verbatim>\<open>get_system_data\<close>; \<open>now\<close> is what \<^verbatim>\<open>datetime.now().isoformat()\<close>
  returns at the call.
\<close>

definition get_system_data :: "string \<Rightarrow> controller \<Rightarrow> snapshot \<times> controller" where
  "get_system_data now s =
    (let (cs, s1) = read_coils 24 s;
         (rs, s2) = read_registers s1;
         als = calc_alerts thresholds rs;
         data = \<lparr>timestamp = now, snap_connected = connected s2, coils = cs,
                 registers = rs, alerts = als, system_fault = (length als > 0)\<rparr>
     in (data, s2\<lparr>last_data := Some data\<rparr>))"

subsection \<open>Scenarios\<close>

text \<open>
  \<^verbatim>\<open>run_scenario\<close> on the global \<^verbatim>\<open>plc_controller\<close>, which is
  \<^verbatim>\<open>None\<close> or a controller. Nothing inside the \<^verbatim>\<open>try\<close> raises:
  \<^verbatim>\<open>write_coil\<close> catches what the client raises.
\<close>

definition run_scenario :: "string \<Rightarrow> controller option \<Rightarrow> bool \<times> controller option" where
  "run_scenario scenario plc_controller =
    (case plc_controller of
       None \<Rightarrow> (False, None)
     | Some s \<Rightarrow>
         if scenario = ''normal_startup'' then
           (let s1 = snd (write_coil ''emergency_button'' False s);
                s2 = sleep 500 s1;
                s3 = snd (pulse_coil ''start_button'' 100 s2)
            in (True, Some s3))
         else if scenario = ''low_pressure'' then
           (True, Some (pulse_loop ''pt_dec_sim'' 100 100 8 s))
         else if scenario = ''high_turbidity'' then
           (True, Some (pulse_loop ''turb_inc_sim'' 100 100 8 s))
         else if scenario = ''multiple_faults'' then
           (let s1 = pulse_loop ''pt_dec_sim'' 100 50 8 s;
                s2 = pulse_loop ''ft_dec_sim'' 100 50 6 s1;
                s3 = pulse_loop ''turb_inc_sim'' 100 50 10 s2
            in (True, Some s3))
         else (False, Some s))"

subsection \<open>Clients used as concrete inputs\<close>

text \<open>A device that accepts every write and reads all coils off and mid-range registers.\<close>

definition healthy_client :: modbus_client where
  "healthy_client =
    \<lparr>client_write_coil = (\<lambda>h a v. Result ()),
     client_read_coils = (\<lambda>h a n. Result (replicate n False)),
     client_read_holding_registers = (\<lambda>h a n. Result [50, 25, 5, 75])\<rparr>"

text \<open>A device that answers every write with an error result.\<close>

definition refusing_client :: modbus_client where
  "refusing_client =
    \<lparr>client_write_coil = (\<lambda>h a v. ErrorResult),
     client_read_coils = (\<lambda>h a n. Result (replicate n False)),
     client_read_holding_registers = (\<lambda>h a n. Result [50, 25, 5, 75])\<rparr>"

text \<open>A device that accepts a write of true and refuses a write of false.\<close>

definition stuck_client :: modbus_client where
  "stuck_client =
    \<lparr>client_write_coil = (\<lambda>h a v. if v then Result () else ErrorResult),
     client_read_coils = (\<lambda>h a n. Result (replicate n False)),
     client_read_holding_registers = (\<lambda>h a n. Result [50, 25, 5, 75])\<rparr>"

text \<open>A device whose coil read fails while its registers are all out of range.\<close>

definition half_client :: modbus_client where
  "half_client =
    \<lparr>client_write_coil = (\<lambda>h a v. Result ()),
     client_read_coils = (\<lambda>h a n. ErrorResult),
     client_read_holding_registers = (\<lambda>h a n. Result [10, 5, 20, 10])\<rparr>"

text \<open>A device on which every read raises.\<close>

definition silent_client :: modbus_client where
  "silent_client =
    \<lparr>client_write_coil = (\<lambda>h a v. Result ()),
     client_read_coils = (\<lambda>h a n. Raises),
     client_read_holding_registers = (\<lambda>h a n. Raises)\<rparr>"

text \<open>A connected controller on which nothing has happened yet.\<close>

definition online :: "modbus_client \<Rightarrow> controller" where
  "online cl = (init ''localhost'' 502 cl)\<lparr>connected := True\<rparr>"

subsection \<open>Shapes of what a pulse loop leaves on the wire\<close>

text \<open>
  What one pass of a pulse loop on the coil at address \<open>a\<close> appends to the log of a
  connected controller: the set write and the delay when the set write fails, and the set
  write, the dwell, the clear write and the delay when it succeeds.
\<close>

definition pulse_traces :: "nat \<Rightarrow> nat \<Rightarrow> nat \<Rightarrow> event list set" where
  "pulse_traces a dwell gap =
    {[WriteCoil a True, Sleep gap],
     [WriteCoil a True, Sleep dwell, WriteCoil a False, Sleep gap]}"

subsection \<open>The point an adjustment pulses\<close>

text \<open>
  The table of \<^verbatim>\<open>adjust_parameter\<close> read as a function: direction
  \<^verbatim>\<open>up\<close> selects the increment point of the parameter, every other direction
  its decrement point. It is used on the four known parameters only.
\<close>

definition adjust_point :: "string \<Rightarrow> string \<Rightarrow> string" where
  "adjust_point param direction =
    (if param = ''pressure'' then (if direction = ''up'' then ''pt_inc_sim'' else ''pt_dec_sim'')
     else if param = ''flow'' then (if direction = ''up'' then ''ft_inc_sim'' else ''ft_dec_sim'')
     else if param = ''turbidity'' then
       (if direction = ''up'' then ''turb_inc_sim'' else ''turb_dec_sim'')
     else (if direction = ''up'' then ''level_inc_sim'' else ''level_dec_sim''))"

subsection \<open>The alert rules as the specification words them\<close>

text \<open>
  The four rules in their fixed order, each on its own reading with its default, and the
  fault flag as non-emptiness of the alert list.
\<close>

definition evaluate :: "thresholds_t \<Rightarrow> (string \<times> int) list \<Rightarrow> string list \<times> bool" where
  "evaluate th av =
    (let pressure = (case map_of av ''pressure_value'' of None \<Rightarrow> 50 | Some v \<Rightarrow> v);
         flow = (case map_of av ''flow_value'' of None \<Rightarrow> 25 | Some v \<Rightarrow> v);
         turbidity = (case map_of av ''turbidity_value'' of None \<Rightarrow> 5 | Some v \<Rightarrow> v);
         level = (case map_of av ''water_level'' of None \<Rightarrow> 75 | Some v \<Rightarrow> v);
         active = map fst (filter snd
           [(''Pressure Alert'', pressure < pt_low th \<or> pt_high th < pressure),
            (''Flow Alert'', flow < ft_low th),
            (''Turbidity Alert'', turb_high th < turbidity),
            (''Low Level Alert'', level < level_low th)])
     in (active, active \<noteq> []))"

section \<open>Basic facts\<close>

lemma online_fields:
  "connected (online cl)" "wire (online cl) = []" "client (online cl) = cl"
  by (simp_all add: online_def init_def)

lemma sleep_fields:
  "connected (sleep ms s) = connected s"
  "client (sleep ms s) = client s"
  "wire (sleep ms s) = wire s @ [Sleep ms]"
  by (simp_all add: sleep_def)

lemma write_coil_connected: "connected (snd (write_coil name v s)) = connected s"
  by (simp add: write_coil_def Let_def split: option.splits reply.splits)

lemma write_coil_client: "client (snd (write_coil name v s)) = client s"
  by (simp add: write_coil_def Let_def split: option.splits reply.splits)

lemma write_coil_wire:
  "wire (snd (write_coil name v s)) =
     wire s @ (if connected s then
                 (case map_of coil_map name of None \<Rightarrow> [] | Some a \<Rightarrow> [WriteCoil a v])
               else [])"
  by (simp add: write_coil_def Let_def split: option.splits reply.splits)

lemma write_coil_offline: "\<not> connected s \<Longrightarrow> write_coil name v s = (False, s)"
  by (simp add: write_coil_def)

lemma pulse_coil_eq:
  "pulse_coil name d s =
     (if fst (write_coil name True s)
      then (True, snd (write_coil name False (sleep d (snd (write_coil name True s)))))
      else (False, snd (write_coil name True s)))"
  by (cases "write_coil name True s") (simp add: pulse_coil_def)

lemma pulse_coil_connected: "connected (snd (pulse_coil name d s)) = connected s"
  by (simp add: pulse_coil_eq write_coil_connected sleep_fields)

lemma pulse_coil_client: "client (snd (pulse_coil name d s)) = client s"
  by (simp add: pulse_coil_eq write_coil_client sleep_fields)

lemma pulse_coil_offline: "\<not> connected s \<Longrightarrow> pulse_coil name d s = (False, s)"
  by (simp add: pulse_coil_eq write_coil_offline)

lemma pulse_coil_wire:
  assumes "connected s" and "map_of coil_map name = Some a"
  shows "wire (snd (pulse_coil name d s)) =
           wire s @ (if fst (pulse_coil name d s)
                     then [WriteCoil a True, Sleep d, WriteCoil a False]
                     else [WriteCoil a True])"
  using assms
  by (simp add: pulse_coil_eq write_coil_wire write_coil_connected sleep_fields)



lemma pulse_loop_funpow:
  "pulse_loop c d g n s = ((\<lambda>s. sleep g (snd (pulse_coil c d s))) ^^ n) s"
proof -
  define f where "f = (\<lambda>s. sleep g (snd (pulse_coil c d s)))"
  have step: "pulse_loop c d g (Suc k) t = pulse_loop c d g k (f t)" for k t
    by (simp add: f_def)
  have "pulse_loop c d g n s = (f ^^ n) s"
  proof (induction n arbitrary: s)
    case 0
    then show ?case by simp
  next
    case (Suc n)
    have "pulse_loop c d g (Suc n) s = (f ^^ n) (f s)"
      by (simp only: step Suc.IH)
    then show ?case by (simp only: funpow_Suc_right o_apply)
  qed
  then show ?thesis by (simp only: f_def)
qed

lemma pulse_loop_offline:
  "\<not> connected s \<Longrightarrow> wire (pulse_loop c d g n s) = wire s @ replicate n (Sleep g)"
proof (induction n arbitrary: s)
  case 0
  then show ?case by simp
next
  case (Suc n)
  let ?s1 = "sleep g s"
  have "\<not> connected ?s1" using Suc.prems by (simp add: sleep_fields)
  then have "wire (pulse_loop c d g n ?s1) = wire ?s1 @ replicate n (Sleep g)"
    by (rule Suc.IH)
  then show ?case using Suc.prems
    by (simp add: pulse_coil_offline sleep_fields replicate_app_Cons_same)
qed

lemma pulse_loop_blocks:
  assumes "connected s" and "map_of coil_map c = Some a"
  shows "\<exists>bs. length bs = n \<and> set bs \<subseteq> pulse_traces a d g \<and>
              wire (pulse_loop c d g n s) = wire s @ concat bs"
  using assms(1)
proof (induction n arbitrary: s)
  case 0
  then show ?case by simp
next
  case (Suc n)
  let ?s1 = "sleep g (snd (pulse_coil c d s))"
  have c1: "connected ?s1"
    using Suc.prems by (simp add: sleep_fields pulse_coil_connected)
  obtain bs where bs: "length bs = n" "set bs \<subseteq> pulse_traces a d g"
      "wire (pulse_loop c d g n ?s1) = wire ?s1 @ concat bs"
    using Suc.IH [OF c1] by blast
  define b where "b = (if fst (pulse_coil c d s)
                       then [WriteCoil a True, Sleep d, WriteCoil a False, Sleep g]
                       else [WriteCoil a True, Sleep g])"
  have w1: "wire ?s1 = wire s @ b"
    using pulse_coil_wire [OF Suc.prems assms(2), of d]
    by (simp add: sleep_fields b_def)
  have bin: "b \<in> pulse_traces a d g"
    by (simp add: b_def pulse_traces_def)
  have "length (b # bs) = Suc n" using bs(1) by simp
  moreover have "set (b # bs) \<subseteq> pulse_traces a d g" using bs(2) bin by simp
  moreover have "wire (pulse_loop c d g (Suc n) s) = wire s @ concat (b # bs)"
    using bs(3) w1 by simp
  ultimately show ?case by blast
qed


lemma coil_lookup:
  "map_of coil_map ''start_button'' = Some 3"
  "map_of coil_map ''emergency_button'' = Some 4"
  "map_of coil_map ''pt_inc_sim'' = Some 16"
  "map_of coil_map ''pt_dec_sim'' = Some 17"
  "map_of coil_map ''ft_inc_sim'' = Some 18"
  "map_of coil_map ''ft_dec_sim'' = Some 19"
  "map_of coil_map ''turb_inc_sim'' = Some 20"
  "map_of coil_map ''turb_dec_sim'' = Some 21"
  "map_of coil_map ''level_inc_sim'' = Some 22"
  "map_of coil_map ''level_dec_sim'' = Some 23"
  by (simp_all add: coil_map_def)

lemma adjust_point_known:
  "\<exists>a. map_of coil_map (adjust_point param direction) = Some a"
  by (simp add: adjust_point_def coil_lookup)

lemma adjust_parameter_unknown:
  "param \<notin> {''pressure'', ''flow'', ''turbidity'', ''level''} \<Longrightarrow>
     adjust_parameter param direction steps s = (False, s)"
  by (simp add: adjust_parameter_def param_map_def)

lemma adjust_parameter_known:
  "param \<in> {''pressure'', ''flow'', ''turbidity'', ''level''} \<Longrightarrow>
     adjust_parameter param direction steps s =
       (True, pulse_loop (adjust_point param direction) 100 100 (nat steps) s)"
  by (auto simp add: adjust_parameter_def param_map_def adjust_point_def)

lemma pulse_loop_accepted:
  assumes "connected s" and "map_of coil_map c = Some a"
    and "\<And>h v. client_write_coil (client s) h a v = Result ()"
  shows "wire (pulse_loop c d g n s) =
           wire s @ concat (replicate n [WriteCoil a True, Sleep d, WriteCoil a False, Sleep g])"
  using assms(1,3)
proof (induction n arbitrary: s)
  case 0
  then show ?case by simp
next
  case (Suc n)
  let ?s1 = "sleep g (snd (pulse_coil c d s))"
  have f: "fst (write_coil c True s)"
    using Suc.prems(1) assms(2) Suc.prems(2) [of "wire s" True]
    by (simp add: write_coil_def Let_def)
  then have nf: "fst (pulse_coil c d s)" by (simp add: pulse_coil_eq)
  have c1: "connected ?s1"
    using Suc.prems by (simp add: sleep_fields pulse_coil_connected)
  have cl: "client ?s1 = client s" by (simp add: sleep_fields pulse_coil_client)
  have "wire (pulse_loop c d g n ?s1) =
          wire ?s1 @ concat (replicate n [WriteCoil a True, Sleep d, WriteCoil a False, Sleep g])"
    using Suc.IH [OF c1] Suc.prems(2) cl by simp
  moreover have "wire ?s1 = wire s @ [WriteCoil a True, Sleep d, WriteCoil a False, Sleep g]"
    using pulse_coil_wire [OF Suc.prems(1) assms(2), of d] nf by (simp add: sleep_fields)
  ultimately show ?case by simp
qed

lemma healthy_accepts: "client_write_coil (client (online healthy_client)) h a v = Result ()"
  by (simp add: online_fields healthy_client_def)

lemma run_scenario_unknown:
  "scenario \<notin> {''normal_startup'', ''low_pressure'', ''high_turbidity'', ''multiple_faults''}
     \<Longrightarrow> run_scenario scenario g = (False, g)"
  by (simp add: run_scenario_def split: option.splits)


lemma run_scenario_low_pressure:
  "run_scenario ''low_pressure'' (Some s) = (True, Some (pulse_loop ''pt_dec_sim'' 100 100 8 s))"
  by (simp add: run_scenario_def)





lemma calc_alerts_evaluate: "calc_alerts th regs = fst (evaluate th regs)"
  by (simp add: calc_alerts_def evaluate_def dict_get_def Let_def)

lemma calc_alerts_defaults: "calc_alerts thresholds [] = []"
  by (simp add: calc_alerts_def dict_get_def thresholds_def)

lemma get_system_data_fields:
  "coils (fst (get_system_data now s)) = fst (read_coils 24 s)"
  "registers (fst (get_system_data now s)) = fst (read_registers (snd (read_coils 24 s)))"
  "alerts (fst (get_system_data now s)) =
     calc_alerts thresholds (fst (read_registers (snd (read_coils 24 s))))"
  "system_fault (fst (get_system_data now s)) =
     (calc_alerts thresholds (fst (read_registers (snd (read_coils 24 s)))) \<noteq> [])"
  "snap_connected (fst (get_system_data now s)) =
     connected (snd (read_registers (snd (read_coils 24 s))))"
  "timestamp (fst (get_system_data now s)) = now"
  by (simp_all add: get_system_data_def Let_def split: prod.splits)

lemma get_system_data_state:
  "snd (get_system_data now s) =
     (snd (read_registers (snd (read_coils 24 s))))\<lparr>last_data := Some (fst (get_system_data now s))\<rparr>"
  by (simp add: get_system_data_def Let_def split: prod.splits)

lemma read_coils_state:
  "connected (snd (read_coils n s)) = connected s"
  "client (snd (read_coils n s)) = client s"
  "wire (snd (read_coils n s)) = wire s @ (if connected s then [ReadCoils 0 n] else [])"
  by (simp_all add: read_coils_def Let_def split: reply.splits)

lemma read_registers_state:
  "connected (snd (read_registers s)) = connected s"
  "client (snd (read_registers s)) = client s"
  "wire (snd (read_registers s)) = wire s @ (if connected s then [ReadHoldingRegisters 0 4] else [])"
  by (simp_all add: read_registers_def Let_def split: reply.splits)

lemma projection_keys:
  "set (map fst [(name, xs ! address). (name, address) \<leftarrow> m, address < length xs])
     \<subseteq> set (map fst m)"
proof
  fix k
  assume "k \<in> set (map fst [(name, xs ! address). (name, address) \<leftarrow> m,
                               address < length xs])"
  then obtain address where "(k, address) \<in> set m"
    by (auto split: if_splits)
  then show "k \<in> set (map fst m)"
    by force
qed

lemma read_coils_keys: "set (map fst (fst (read_coils n s))) \<subseteq> set (map fst coil_map)"
proof (cases "client_read_coils (client s) (wire s) 0 n")
  case (Result bits)
  show ?thesis
  proof (cases "connected s")
    case True
    then have "fst (read_coils n s) =
        [(name, bits ! address). (name, address) \<leftarrow> coil_map, address < length bits]"
      using Result by (simp add: read_coils_def Let_def)
    then show ?thesis by (simp only: projection_keys)
  next
    case False
    then show ?thesis by (simp add: read_coils_def)
  qed
qed (simp_all add: read_coils_def Let_def)

lemma read_registers_keys:
  "set (map fst (fst (read_registers s))) \<subseteq> set (map fst register_map)"
proof (cases "client_read_holding_registers (client s) (wire s) 0 4")
  case (Result regs)
  show ?thesis
  proof (cases "connected s")
    case True
    then have "fst (read_registers s) =
        [(name, regs ! address). (name, address) \<leftarrow> register_map, address < length regs]"
      using Result by (simp add: read_registers_def Let_def)
    then show ?thesis by (simp only: projection_keys)
  next
    case False
    then show ?thesis by (simp add: read_registers_def)
  qed
qed (simp_all add: read_registers_def Let_def)

lemma read_coils_failed:
  "failed (client_read_coils (client s) (wire s) 0 n) \<Longrightarrow> fst (read_coils n s) = []"
  by (cases "client_read_coils (client s) (wire s) 0 n") (simp_all add: read_coils_def Let_def)

lemma read_registers_failed:
  "failed (client_read_holding_registers (client s) (wire s) 0 4) \<Longrightarrow>
     fst (read_registers s) = []"
  by (cases "client_read_holding_registers (client s) (wire s) 0 4")
    (simp_all add: read_registers_def Let_def)

section \<open>The claims\<close>

text \<open>
  Claim C9. While the connected flag is false, \<open>write_coil\<close> returns failure and
  \<open>read_coils\<close> and \<open>read_registers\<close> return the empty dictionary, and the
  controller state, with its log of exchanges, is the one before the call: the client was
  not called.
\<close>

theorem offline_no_io:
  assumes "\<not> connected s"
  shows "write_coil name v s = (False, s) \<and> read_coils count s = ([], s) \<and>
         read_registers s = ([], s)"
  using assms by (simp add: write_coil_def read_coils_def read_registers_def)

theorem offline_no_io_witness:
  "\<not> connected (init ''localhost'' 502 healthy_client) \<and>
   write_coil ''pump'' True (init ''localhost'' 502 healthy_client)
     = (False, init ''localhost'' 502 healthy_client) \<and>
   read_coils 24 (init ''localhost'' 502 healthy_client)
     = ([], init ''localhost'' 502 healthy_client) \<and>
   read_registers (init ''localhost'' 502 healthy_client)
     = ([], init ''localhost'' 502 healthy_client) \<and>
   wire (snd (read_coils 24 (init ''localhost'' 502 healthy_client))) = []"
  using offline_no_io [of "init ''localhost'' 502 healthy_client" "''pump''" True 24]
  by (simp add: init_def)

text \<open>
  Claim C10. When the set write of a pulse fails, \<open>pulse_coil\<close> returns failure in
  the state the set write left: the log holds at most the one set write, then neither the
  dwell nor a clear write.
\<close>

theorem pulse_failed_set:
  assumes "\<not> fst (write_coil name True s)"
  shows "pulse_coil name d s = (False, snd (write_coil name True s)) \<and>
         wire (snd (pulse_coil name d s)) =
           wire s @ (if connected s then
                       (case map_of coil_map name of None \<Rightarrow> [] | Some a \<Rightarrow> [WriteCoil a True])
                     else [])"
  using assms by (simp add: pulse_coil_eq write_coil_wire)

theorem pulse_failed_set_witness:
  "\<not> fst (write_coil ''pump'' True (online refusing_client)) \<and>
   fst (pulse_coil ''pump'' 100 (online refusing_client)) = False \<and>
   wire (snd (pulse_coil ''pump'' 100 (online refusing_client))) = [WriteCoil 0 True]"
proof -
  have h: "\<not> fst (write_coil ''pump'' True (online refusing_client))"
    by (simp add: write_coil_def online_fields refusing_client_def coil_map_def)
  show ?thesis
    using h pulse_failed_set [OF h, of 100]
    by (simp add: online_fields coil_map_def write_coil_wire)
qed

text \<open>
  Claim C3, amended. \<open>pulse_coil\<close> returns success exactly when the set write
  succeeds. After a successful set write it sleeps for the dwell and issues the clear
  write, whose result it drops: the state is the one the clear write leaves and the call
  returns success whether the clear write succeeded or not.
\<close>

theorem pulse_result_is_set_result:
  "fst (pulse_coil name d s) = fst (write_coil name True s) \<and>
   (fst (write_coil name True s) \<longrightarrow>
      snd (pulse_coil name d s) =
        snd (write_coil name False (sleep d (snd (write_coil name True s)))))"
  by (simp add: pulse_coil_eq)

theorem pulse_result_is_set_result_witness:
  "fst (write_coil ''pump'' True (online stuck_client)) \<and>
   fst (pulse_coil ''pump'' 100 (online stuck_client)) \<and>
   snd (pulse_coil ''pump'' 100 (online stuck_client)) =
     snd (write_coil ''pump'' False
            (sleep 100 (snd (write_coil ''pump'' True (online stuck_client)))))"
proof -
  have h: "fst (write_coil ''pump'' True (online stuck_client))"
    by (simp add: write_coil_def online_fields stuck_client_def coil_map_def)
  show ?thesis
    using h pulse_result_is_set_result [of "''pump''" 100 "online stuck_client"] by simp
qed

text \<open>
  Claim C3 as stated fails: on a device that accepts the set write and refuses the clear
  write, the pulse of \<^verbatim>\<open>pump\<close> issues both writes and returns success.
\<close>

theorem pulse_stuck_counterexample:
  "fst (write_coil ''pump'' True (online stuck_client)) \<and>
   \<not> fst (write_coil ''pump'' False
            (sleep 100 (snd (write_coil ''pump'' True (online stuck_client))))) \<and>
   fst (pulse_coil ''pump'' 100 (online stuck_client)) \<and>
   wire (snd (pulse_coil ''pump'' 100 (online stuck_client))) =
     [WriteCoil 0 True, Sleep 100, WriteCoil 0 False]"
  by (simp add: pulse_coil_eq write_coil_def sleep_def online_def init_def stuck_client_def
        coil_map_def)

text \<open>
  Claim C5, amended. \<open>adjust_parameter\<close> returns failure, in an unchanged state, for
  every parameter outside pressure, flow, turbidity and level. For each of these four it
  returns success after \<open>steps\<close> passes (none when \<open>steps\<close> is not positive) of one
  pulse of the selected point with a 100 ms dwell followed by a 100 ms delay, where direction
  \<^verbatim>\<open>up\<close> selects the increment point and every other direction the decrement
  point. On a connected controller the log grows by exactly that many pulse shapes on the
  address of the selected point.
\<close>

theorem adjust_parameter_pulses:
  "(param \<notin> {''pressure'', ''flow'', ''turbidity'', ''level''} \<longrightarrow>
      adjust_parameter param direction steps s = (False, s)) \<and>
   (param \<in> {''pressure'', ''flow'', ''turbidity'', ''level''} \<longrightarrow>
      adjust_parameter param direction steps s =
        (True, ((\<lambda>t. sleep 100 (snd (pulse_coil (adjust_point param direction) 100 t)))
                  ^^ nat steps) s)) \<and>
   (param \<in> {''pressure'', ''flow'', ''turbidity'', ''level''} \<and> connected s \<longrightarrow>
      (\<exists>a bs. map_of coil_map (adjust_point param direction) = Some a \<and>
               length bs = nat steps \<and> set bs \<subseteq> pulse_traces a 100 100 \<and>
               wire (snd (adjust_parameter param direction steps s)) = wire s @ concat bs))"
proof (intro conjI impI)
  assume "param \<notin> {''pressure'', ''flow'', ''turbidity'', ''level''}"
  then show "adjust_parameter param direction steps s = (False, s)"
    by (rule adjust_parameter_unknown)
next
  assume "param \<in> {''pressure'', ''flow'', ''turbidity'', ''level''}"
  then show "adjust_parameter param direction steps s =
        (True, ((\<lambda>t. sleep 100 (snd (pulse_coil (adjust_point param direction) 100 t)))
                  ^^ nat steps) s)"
    by (simp only: adjust_parameter_known pulse_loop_funpow)
next
  assume a: "param \<in> {''pressure'', ''flow'', ''turbidity'', ''level''} \<and> connected s"
  obtain a where pa: "map_of coil_map (adjust_point param direction) = Some a"
    using adjust_point_known by blast
  obtain bs where "length bs = nat steps" "set bs \<subseteq> pulse_traces a 100 100"
    "wire (pulse_loop (adjust_point param direction) 100 100 (nat steps) s) = wire s @ concat bs"
    using pulse_loop_blocks [of s "adjust_point param direction" a "nat steps" 100 100] a pa
    by blast
  then show "\<exists>a bs. map_of coil_map (adjust_point param direction) = Some a \<and>
               length bs = nat steps \<and> set bs \<subseteq> pulse_traces a 100 100 \<and>
               wire (snd (adjust_parameter param direction steps s)) = wire s @ concat bs"
    using a pa by (auto simp only: adjust_parameter_known snd_conv)
qed

theorem adjust_parameter_pulses_witness:
  "''bogus'' \<notin> {''pressure'', ''flow'', ''turbidity'', ''level''} \<and>
   adjust_parameter ''bogus'' ''up'' 1 (online healthy_client) = (False, online healthy_client) \<and>
   ''pressure'' \<in> {''pressure'', ''flow'', ''turbidity'', ''level''} \<and>
   connected (online healthy_client) \<and>
   adjust_parameter ''pressure'' ''up'' 3 (online healthy_client) =
     (True, ((\<lambda>t. sleep 100 (snd (pulse_coil ''pt_inc_sim'' 100 t))) ^^ 3)
              (online healthy_client)) \<and>
   wire (snd (adjust_parameter ''pressure'' ''up'' 3 (online healthy_client))) =
     [WriteCoil 16 True, Sleep 100, WriteCoil 16 False, Sleep 100,
      WriteCoil 16 True, Sleep 100, WriteCoil 16 False, Sleep 100,
      WriteCoil 16 True, Sleep 100, WriteCoil 16 False, Sleep 100]"
proof -
  have r: "concat (replicate 3 xs) = xs @ xs @ xs" for xs :: "event list"
    by (simp add: numeral_3_eq_3)
  have "wire (pulse_loop ''pt_inc_sim'' 100 100 3 (online healthy_client)) =
          wire (online healthy_client) @
          concat (replicate 3 [WriteCoil 16 True, Sleep 100, WriteCoil 16 False, Sleep 100])"
    by (rule pulse_loop_accepted [OF online_fields(1) coil_lookup(3) healthy_accepts])
  then have w: "wire (pulse_loop ''pt_inc_sim'' 100 100 3 (online healthy_client)) =
     [WriteCoil 16 True, Sleep 100, WriteCoil 16 False, Sleep 100,
      WriteCoil 16 True, Sleep 100, WriteCoil 16 False, Sleep 100,
      WriteCoil 16 True, Sleep 100, WriteCoil 16 False, Sleep 100]"
    by (simp only: r online_fields append.simps)
  show ?thesis
    using adjust_parameter_pulses [of "''bogus''" "''up''" 1 "online healthy_client"]
      adjust_parameter_pulses [of "''pressure''" "''up''" 3 "online healthy_client"] w
    by (simp add: online_fields adjust_point_def pulse_loop_funpow)
qed

text \<open>
  Claim C5 as stated fails: direction \<^verbatim>\<open>sideways\<close> is outside up and down,
  yet the call succeeds and pulses the pressure decrement point at address 17.
\<close>

theorem adjust_direction_counterexample:
  "''sideways'' \<notin> {''up'', ''down''} \<and>
   fst (adjust_parameter ''pressure'' ''sideways'' 1 (online healthy_client)) \<and>
   wire (snd (adjust_parameter ''pressure'' ''sideways'' 1 (online healthy_client))) =
     [WriteCoil 17 True, Sleep 100, WriteCoil 17 False, Sleep 100]"
  using pulse_loop_accepted [OF online_fields(1) coil_lookup(4) healthy_accepts, of 100 100 1]
  by (simp add: adjust_parameter_def param_map_def online_fields)

text \<open>
  Claim C6. On a controller, the scenario \<^verbatim>\<open>low_pressure\<close> returns success after
  eight passes of one pulse of \<^verbatim>\<open>pt_dec_sim\<close> with a 100 ms dwell followed by a
  100 ms delay, and does nothing else: on a connected controller the log grows by exactly
  eight pulse shapes on address 17, one after the other. A scenario name outside the four
  known ones returns failure and leaves the controller as it was.
\<close>

theorem low_pressure_scenario:
  "run_scenario ''low_pressure'' (Some s) =
     (True, Some (((\<lambda>t. sleep 100 (snd (pulse_coil ''pt_dec_sim'' 100 t))) ^^ 8) s)) \<and>
   (connected s \<longrightarrow>
      (\<exists>s' bs. snd (run_scenario ''low_pressure'' (Some s)) = Some s' \<and>
                length bs = 8 \<and> set bs \<subseteq> pulse_traces 17 100 100 \<and>
                wire s' = wire s @ concat bs)) \<and>
   (scenario \<notin> {''normal_startup'', ''low_pressure'', ''high_turbidity'', ''multiple_faults''}
      \<longrightarrow> run_scenario scenario g = (False, g))"
proof (intro conjI impI)
  show "run_scenario ''low_pressure'' (Some s) =
     (True, Some (((\<lambda>t. sleep 100 (snd (pulse_coil ''pt_dec_sim'' 100 t))) ^^ 8) s))"
    by (simp only: run_scenario_low_pressure pulse_loop_funpow)
next
  assume c: "connected s"
  obtain bs where "length bs = 8" "set bs \<subseteq> pulse_traces 17 100 100"
    "wire (pulse_loop ''pt_dec_sim'' 100 100 8 s) = wire s @ concat bs"
    using pulse_loop_blocks [OF c coil_lookup(4), of 8 100 100] by blast
  then show "\<exists>s' bs. snd (run_scenario ''low_pressure'' (Some s)) = Some s' \<and>
                length bs = 8 \<and> set bs \<subseteq> pulse_traces 17 100 100 \<and>
                wire s' = wire s @ concat bs"
    by (auto simp only: run_scenario_low_pressure snd_conv)
next
  assume "scenario \<notin> {''normal_startup'', ''low_pressure'', ''high_turbidity'',
    ''multiple_faults''}"
  then show "run_scenario scenario g = (False, g)"
    by (rule run_scenario_unknown)
qed

theorem low_pressure_scenario_witness:
  "connected (online healthy_client) \<and>
   ''self_destruct'' \<notin>
     {''normal_startup'', ''low_pressure'', ''high_turbidity'', ''multiple_faults''} \<and>
   run_scenario ''self_destruct'' (Some (online healthy_client)) =
     (False, Some (online healthy_client)) \<and>
   fst (run_scenario ''low_pressure'' (Some (online healthy_client))) \<and>
   (\<exists>s'. snd (run_scenario ''low_pressure'' (Some (online healthy_client))) = Some s' \<and>
         wire s' =
           concat (replicate 8 [WriteCoil 17 True, Sleep 100, WriteCoil 17 False, Sleep 100]))"
proof -
  have w: "wire (pulse_loop ''pt_dec_sim'' 100 100 8 (online healthy_client)) =
          wire (online healthy_client) @
          concat (replicate 8 [WriteCoil 17 True, Sleep 100, WriteCoil 17 False, Sleep 100])"
    by (rule pulse_loop_accepted [OF online_fields(1) coil_lookup(4) healthy_accepts])
  have t: "run_scenario ''low_pressure'' (Some (online healthy_client)) =
     (True, Some (((\<lambda>t. sleep 100 (snd (pulse_coil ''pt_dec_sim'' 100 t))) ^^ 8)
                    (online healthy_client)))"
    and u: "run_scenario ''self_destruct'' (Some (online healthy_client)) =
              (False, Some (online healthy_client))"
    using low_pressure_scenario
            [of "online healthy_client" "''self_destruct''" "Some (online healthy_client)"]
    by simp_all
  show ?thesis
    using w by (simp add: t u online_fields pulse_loop_funpow)
qed




text \<open>
  Claim C1. The alert list of \<open>get_system_data\<close> is the result of the four rules, in the
  order pressure, flow, turbidity, level, on the register dictionary it read, with the
  defaults 50, 25, 5 and 75 for a missing reading: the pressure alert is present exactly
  when the pressure is below the low or above the high threshold, the flow alert exactly
  when the flow is below its threshold, the turbidity alert exactly when the turbidity is
  above its threshold, the low level alert exactly when the level is below its threshold.
  The fault flag says that the alert list is not empty. The rules are those of the
  specification for every threshold record and every dictionary.
\<close>

theorem alerts_follow_the_rules:
  "calc_alerts th regs = fst (evaluate th regs) \<and>
   (''Pressure Alert'' \<in> set (calc_alerts th regs) \<longleftrightarrow>
      dict_get regs ''pressure_value'' 50 < pt_low th \<or>
      pt_high th < dict_get regs ''pressure_value'' 50) \<and>
   (''Flow Alert'' \<in> set (calc_alerts th regs) \<longleftrightarrow>
      dict_get regs ''flow_value'' 25 < ft_low th) \<and>
   (''Turbidity Alert'' \<in> set (calc_alerts th regs) \<longleftrightarrow>
      turb_high th < dict_get regs ''turbidity_value'' 5) \<and>
   (''Low Level Alert'' \<in> set (calc_alerts th regs) \<longleftrightarrow>
      dict_get regs ''water_level'' 75 < level_low th) \<and>
   calc_alerts th regs =
     filter (\<lambda>a. a \<in> set (calc_alerts th regs))
       [''Pressure Alert'', ''Flow Alert'', ''Turbidity Alert'', ''Low Level Alert''] \<and>
   alerts (fst (get_system_data now s)) =
     fst (evaluate thresholds (registers (fst (get_system_data now s)))) \<and>
   system_fault (fst (get_system_data now s)) =
     snd (evaluate thresholds (registers (fst (get_system_data now s)))) \<and>
   system_fault (fst (get_system_data now s)) = (alerts (fst (get_system_data now s)) \<noteq> [])"
proof (intro conjI)
  show "calc_alerts th regs = fst (evaluate th regs)"
    by (rule calc_alerts_evaluate)
  show "''Pressure Alert'' \<in> set (calc_alerts th regs) \<longleftrightarrow>
      dict_get regs ''pressure_value'' 50 < pt_low th \<or>
      pt_high th < dict_get regs ''pressure_value'' 50"
    by (simp add: calc_alerts_def Let_def)
  show "''Flow Alert'' \<in> set (calc_alerts th regs) \<longleftrightarrow>
      dict_get regs ''flow_value'' 25 < ft_low th"
    by (simp add: calc_alerts_def Let_def)
  show "''Turbidity Alert'' \<in> set (calc_alerts th regs) \<longleftrightarrow>
      turb_high th < dict_get regs ''turbidity_value'' 5"
    by (simp add: calc_alerts_def Let_def)
  show "''Low Level Alert'' \<in> set (calc_alerts th regs) \<longleftrightarrow>
      dict_get regs ''water_level'' 75 < level_low th"
    by (simp add: calc_alerts_def Let_def)
  show "calc_alerts th regs =
     filter (\<lambda>a. a \<in> set (calc_alerts th regs))
       [''Pressure Alert'', ''Flow Alert'', ''Turbidity Alert'', ''Low Level Alert'']"
    by (simp add: calc_alerts_def Let_def)
  show "alerts (fst (get_system_data now s)) =
     fst (evaluate thresholds (registers (fst (get_system_data now s))))"
    by (simp only: get_system_data_fields calc_alerts_evaluate)
  show "system_fault (fst (get_system_data now s)) =
     snd (evaluate thresholds (registers (fst (get_system_data now s))))"
    by (simp add: get_system_data_fields calc_alerts_evaluate evaluate_def Let_def)
  show "system_fault (fst (get_system_data now s)) =
          (alerts (fst (get_system_data now s)) \<noteq> [])"
    by (simp only: get_system_data_fields)
qed

theorem alerts_follow_the_rules_witness:
  "calc_alerts thresholds [(''pressure_value'', 15)] = [''Pressure Alert''] \<and>
   evaluate thresholds [(''pressure_value'', 15)] = ([''Pressure Alert''], True) \<and>
   alerts (fst (get_system_data ''t0'' (online healthy_client))) = [] \<and>
   \<not> system_fault (fst (get_system_data ''t0'' (online healthy_client))) \<and>
   alerts (fst (get_system_data ''t0'' (online half_client))) =
     [''Pressure Alert'', ''Flow Alert'', ''Turbidity Alert'', ''Low Level Alert''] \<and>
   system_fault (fst (get_system_data ''t0'' (online half_client)))"
proof -
  have e: "evaluate thresholds [(''pressure_value'', 15)] = ([''Pressure Alert''], True)"
    by (simp add: evaluate_def thresholds_def)
  have r1: "registers (fst (get_system_data ''t0'' (online healthy_client))) =
      [(''pressure_value'', 50), (''flow_value'', 25), (''turbidity_value'', 5),
       (''water_level'', 75)]"
    by (simp add: get_system_data_fields read_registers_def read_coils_state online_fields
          healthy_client_def register_map_def)
  have r2: "registers (fst (get_system_data ''t0'' (online half_client))) =
      [(''pressure_value'', 10), (''flow_value'', 5), (''turbidity_value'', 20),
       (''water_level'', 10)]"
    by (simp add: get_system_data_fields read_registers_def read_coils_state online_fields
          half_client_def register_map_def)
  show ?thesis
    using alerts_follow_the_rules
            [of thresholds "[(''pressure_value'', 15)]" "''t0''" "online healthy_client"]
      alerts_follow_the_rules
            [of thresholds "[(''pressure_value'', 15)]" "''t0''" "online half_client"]
    by (simp add: e r1 r2 evaluate_def thresholds_def)
qed

text \<open>
  Claim C2 as stated fails: on a connected controller whose coil read returns an error
  while its registers read 10, 5, 20 and 10, the snapshot says connected, carries the four
  register values and lists all four alerts.
\<close>

theorem failed_read_counterexample:
  "failed (client_read_coils (client (online half_client)) (wire (online half_client)) 0 24) \<and>
   snap_connected (fst (get_system_data ''t0'' (online half_client))) \<and>
   coils (fst (get_system_data ''t0'' (online half_client))) = [] \<and>
   registers (fst (get_system_data ''t0'' (online half_client))) =
     [(''pressure_value'', 10), (''flow_value'', 5), (''turbidity_value'', 20),
      (''water_level'', 10)] \<and>
   alerts (fst (get_system_data ''t0'' (online half_client))) =
     [''Pressure Alert'', ''Flow Alert'', ''Turbidity Alert'', ''Low Level Alert''] \<and>
   system_fault (fst (get_system_data ''t0'' (online half_client)))"
  by (simp add: get_system_data_fields read_registers_def read_coils_def read_coils_state
        read_registers_state online_fields half_client_def register_map_def calc_alerts_def
        dict_get_def thresholds_def)

text \<open>
  Claim C2, amended. \<open>get_system_data\<close> always returns a snapshot, whose two dictionaries
  are what \<open>read_coils\<close> and then \<open>read_registers\<close> returned, and whose connected field
  is the connected flag of the controller, which the call does not change. On a connected
  controller, a failed coil read gives an empty coil dictionary, and a failed register
  read gives an empty register dictionary, no alert and no fault.
\<close>

theorem failed_reads_give_empty_maps:
  "coils (fst (get_system_data now s)) = fst (read_coils 24 s) \<and>
   registers (fst (get_system_data now s)) = fst (read_registers (snd (read_coils 24 s))) \<and>
   snap_connected (fst (get_system_data now s)) = connected s \<and>
   connected (snd (get_system_data now s)) = connected s \<and>
   (connected s \<and> failed (client_read_coils (client s) (wire s) 0 24) \<longrightarrow>
      coils (fst (get_system_data now s)) = []) \<and>
   (connected s \<and>
    failed (client_read_holding_registers (client s) (wire s @ [ReadCoils 0 24]) 0 4) \<longrightarrow>
      registers (fst (get_system_data now s)) = [] \<and>
      alerts (fst (get_system_data now s)) = [] \<and>
      \<not> system_fault (fst (get_system_data now s)))"
proof (intro conjI impI)
  show "coils (fst (get_system_data now s)) = fst (read_coils 24 s)"
    by (rule get_system_data_fields)
  show "registers (fst (get_system_data now s)) = fst (read_registers (snd (read_coils 24 s)))"
    by (rule get_system_data_fields)
  show "snap_connected (fst (get_system_data now s)) = connected s"
    by (simp add: get_system_data_fields read_registers_state read_coils_state)
  show "connected (snd (get_system_data now s)) = connected s"
    by (simp add: get_system_data_state read_registers_state read_coils_state)
next
  assume "connected s \<and> failed (client_read_coils (client s) (wire s) 0 24)"
  then show "coils (fst (get_system_data now s)) = []"
    by (simp add: get_system_data_fields read_coils_failed)
next
  assume a: "connected s \<and>
    failed (client_read_holding_registers (client s) (wire s @ [ReadCoils 0 24]) 0 4)"
  let ?s1 = "snd (read_coils 24 s)"
  have "failed (client_read_holding_registers (client ?s1) (wire ?s1) 0 4)"
    using a by (simp add: read_coils_state)
  then have e: "fst (read_registers ?s1) = []"
    by (rule read_registers_failed)
  show "registers (fst (get_system_data now s)) = []"
    by (simp add: get_system_data_fields e)
  show "alerts (fst (get_system_data now s)) = []"
    by (simp add: get_system_data_fields e calc_alerts_defaults)
  show "\<not> system_fault (fst (get_system_data now s))"
    by (simp add: get_system_data_fields e calc_alerts_defaults)
qed

theorem failed_reads_give_empty_maps_witness:
  "connected (online silent_client) \<and>
   failed (client_read_coils (client (online silent_client)) (wire (online silent_client)) 0 24) \<and>
   failed (client_read_holding_registers (client (online silent_client))
             (wire (online silent_client) @ [ReadCoils 0 24]) 0 4) \<and>
   snap_connected (fst (get_system_data ''t0'' (online silent_client))) \<and>
   coils (fst (get_system_data ''t0'' (online silent_client))) = [] \<and>
   registers (fst (get_system_data ''t0'' (online silent_client))) = [] \<and>
   alerts (fst (get_system_data ''t0'' (online silent_client))) = [] \<and>
   \<not> system_fault (fst (get_system_data ''t0'' (online silent_client)))"
proof -
  have h: "connected (online silent_client) \<and>
     failed (client_read_coils (client (online silent_client)) (wire (online silent_client)) 0 24)"
    and k: "connected (online silent_client) \<and>
     failed (client_read_holding_registers (client (online silent_client))
               (wire (online silent_client) @ [ReadCoils 0 24]) 0 4)"
    by (simp_all add: online_fields silent_client_def)
  show ?thesis
    using h k failed_reads_give_empty_maps [of "''t0''" "online silent_client"]
    by blast
qed

text \<open>
  Claim C8. Every key of the coil dictionary of a snapshot is a name of \<open>coil_map\<close> and
  every key of its register dictionary is a name of \<open>register_map\<close>; a snapshot whose
  connected field is false has empty dictionaries, no alert and no fault.
\<close>

theorem snapshot_invariant:
  "set (map fst (coils (fst (get_system_data now s)))) \<subseteq> set (map fst coil_map) \<and>
   set (map fst (registers (fst (get_system_data now s)))) \<subseteq> set (map fst register_map) \<and>
   (\<not> snap_connected (fst (get_system_data now s)) \<longrightarrow>
      coils (fst (get_system_data now s)) = [] \<and>
      registers (fst (get_system_data now s)) = [] \<and>
      alerts (fst (get_system_data now s)) = [] \<and>
      \<not> system_fault (fst (get_system_data now s)))"
proof (intro conjI impI)
  show "set (map fst (coils (fst (get_system_data now s)))) \<subseteq> set (map fst coil_map)"
    by (simp only: get_system_data_fields read_coils_keys)
  show "set (map fst (registers (fst (get_system_data now s)))) \<subseteq> set (map fst register_map)"
    by (simp only: get_system_data_fields read_registers_keys)
next
  assume "\<not> snap_connected (fst (get_system_data now s))"
  then have off: "\<not> connected s"
    by (simp add: get_system_data_fields read_registers_state read_coils_state)
  then have c: "read_coils 24 s = ([], s)" and r: "read_registers s = ([], s)"
    by (simp_all add: read_coils_def read_registers_def)
  show "coils (fst (get_system_data now s)) = []"
    by (simp add: get_system_data_fields c)
  show "registers (fst (get_system_data now s)) = []"
    by (simp add: get_system_data_fields c r)
  show "alerts (fst (get_system_data now s)) = []"
    by (simp add: get_system_data_fields c r calc_alerts_defaults)
  show "\<not> system_fault (fst (get_system_data now s))"
    by (simp add: get_system_data_fields c r calc_alerts_defaults)
qed

theorem snapshot_invariant_witness:
  "\<not> snap_connected (fst (get_system_data ''t0'' (init ''localhost'' 502 healthy_client))) \<and>
   coils (fst (get_system_data ''t0'' (init ''localhost'' 502 healthy_client))) = [] \<and>
   registers (fst (get_system_data ''t0'' (init ''localhost'' 502 healthy_client))) = [] \<and>
   alerts (fst (get_system_data ''t0'' (init ''localhost'' 502 healthy_client))) = [] \<and>
   \<not> system_fault (fst (get_system_data ''t0'' (init ''localhost'' 502 healthy_client))) \<and>
   map fst (registers (fst (get_system_data ''t0'' (online healthy_client)))) =
     map fst register_map \<and>
   map fst (coils (fst (get_system_data ''t0'' (online healthy_client)))) = map fst coil_map"
proof -
  have h: "\<not> snap_connected (fst (get_system_data ''t0'' (init ''localhost'' 502 healthy_client)))"
    by (simp add: get_system_data_fields read_registers_state read_coils_state init_def)
  have r: "map fst (registers (fst (get_system_data ''t0'' (online healthy_client)))) =
             map fst register_map"
    by (simp add: get_system_data_fields read_registers_def read_coils_state online_fields
          healthy_client_def register_map_def)
  have c: "map fst (coils (fst (get_system_data ''t0'' (online healthy_client)))) =
             map fst coil_map"
    by (simp add: get_system_data_fields read_coils_def online_fields healthy_client_def
          coil_map_def)
  show ?thesis
    using h r c snapshot_invariant [of "''t0''" "init ''localhost'' 502 healthy_client"]
    by simp
qed

end
